theory Spec2Isabelle
  imports Main "HOL-Library.Word" "HOL-Library.Sublist"
begin

section \<open>Go values used by package exec\<close>

subsection \<open>Errors\<close>

text \<open>
  A Go \<open>error\<close> is a value with a message (\<open>Error()\<close>) and, when it wraps another error,
  an \<open>Unwrap()\<close>. \<open>fmt.Errorf\<close> without a \<open>%w\<close> verb gives an error that wraps nothing;
  with one \<open>%w\<close> verb it gives an error whose message is the formatted string and whose
  \<open>Unwrap()\<close> is the operand of \<open>%w\<close>. A nil error is \<open>None\<close> of \<open>error option\<close>.

  The error values here are pointers, and Go compares them by identity, not by their text.
  So every error value carries its address: the address of a value that a package-level
  variable was initialised with (named by the variable), of a value that this package
  allocates while it runs (numbered in the order of allocation), or of a value that the
  library made (named).
\<close>

datatype address = Package_var string | Allocated nat | Library_value string

datatype error = ErrorString address string | WrapError address string error

fun address_of :: "error \<Rightarrow> address" where
  "address_of (ErrorString a s) = a"
| "address_of (WrapError a s e) = a"

fun Error :: "error \<Rightarrow> string" where
  "Error (ErrorString a s) = s"
| "Error (WrapError a s e) = s"

fun Unwrap :: "error \<Rightarrow> error option" where
  "Unwrap (ErrorString a s) = None"
| "Unwrap (WrapError a s e) = Some e"

text \<open>
  \<open>errors.Is\<close>: the target is the error itself (the same value, by \<open>==\<close>) or is reached
  by unwrapping it.
\<close>

fun errors_Is :: "error \<Rightarrow> error \<Rightarrow> bool" where
  "errors_Is (ErrorString a s) target = (a = address_of target)"
| "errors_Is (WrapError a s e) target = (a = address_of target \<or> errors_Is e target)"

text \<open>\<open>strings.Join\<close>, used for the log line of ExecPod.\<close>

fun strings_Join :: "string list \<Rightarrow> string \<Rightarrow> string" where
  "strings_Join [] sep = []"
| "strings_Join [x] sep = x"
| "strings_Join (x # y # ys) sep = x @ sep @ strings_Join (y # ys) sep"

subsection \<open>Durations and contexts\<close>

text \<open>\<open>time.Duration\<close> is an int64 count of nanoseconds.\<close>

type_synonym Duration = "64 word"

definition Second :: Duration where
  "Second = 1000000000"

text \<open>
  A \<open>context.Context\<close> is the background context or a context derived from a parent with
  a timeout. The clock is not part of the model: a derived context records the duration
  it was given.
\<close>

datatype Context = Background | WithTimeout Context Duration

subsection \<open>Streams\<close>

text \<open>
  \<open>io.Reader\<close> and \<open>io.Writer\<close> values are handles; a nil interface value is \<open>None\<close>.
\<close>

datatype Reader = Reader string
datatype Writer = Writer string

section \<open>The client library\<close>

text \<open>
  The types below belong to the Kubernetes client library, which is not part of this
  package. Each is represented by the fields that package exec reads or writes.
\<close>

subsection \<open>rest.Config and the SPDY transport\<close>

text \<open>
  A proxy function is \<open>http.ProxyFromEnvironment\<close> or a function supplied by the caller,
  identified by a name.
\<close>

datatype proxy_func = ProxyFromEnvironment | ProxyFunc string

record Config =
  Host :: string
  Proxy :: "proxy_func option"

datatype TLSConfig = TLSConfig string

record RoundTripperConfig =
  TLS :: "TLSConfig option"
  FollowRedirects :: bool
  RequireSameHostRedirects :: bool
  Proxier :: "proxy_func option"
  PingPeriod :: Duration

text \<open>
  \<open>spdy.NewRoundTripperWithConfig\<close> builds the upgrading round tripper from its
  configuration; the round tripper is represented by the configuration it was built from.
\<close>

datatype SpdyRoundTripper = NewRoundTripperWithConfig RoundTripperConfig

datatype RoundTripper = RoundTripper string

datatype URL = URL string

datatype Executor = Executor string

subsection \<open>The exec request\<close>

record PodExecOptions =
  Stdin :: bool
  Stdout :: bool
  Stderr :: bool
  TTY :: bool
  Container :: string
  Command :: "string list"

text \<open>
  Modelled from the spec: the request builder of the client library (\<open>rest.Request\<close>),
  whose code is not part of this repository. The spec calls it "the external library's request
  builders", to which the configuration is "passed through", and the request "a request
  describing the target pod/container/command/stream flags": a request is the description
  assembled from the values handed to its builder methods, and each builder method stores
  its argument.
\<close>

record Request =
  verb :: string
  resource :: string
  namespace :: string
  resourceName :: string
  subresource :: string
  timeout :: Duration
  params :: "PodExecOptions option"

definition Post :: Request where
  "Post = \<lparr>verb = ''POST'', resource = '''', namespace = '''', resourceName = '''',
           subresource = '''', timeout = 0, params = None\<rparr>"

definition Request_Resource :: "Request \<Rightarrow> string \<Rightarrow> Request" where
  "Request_Resource r s = r\<lparr>resource := s\<rparr>"

definition Request_Namespace :: "Request \<Rightarrow> string \<Rightarrow> Request" where
  "Request_Namespace r s = r\<lparr>namespace := s\<rparr>"

definition Request_Name :: "Request \<Rightarrow> string \<Rightarrow> Request" where
  "Request_Name r s = r\<lparr>resourceName := s\<rparr>"

definition Request_SubResource :: "Request \<Rightarrow> string \<Rightarrow> Request" where
  "Request_SubResource r s = r\<lparr>subresource := s\<rparr>"

definition Request_Timeout :: "Request \<Rightarrow> Duration \<Rightarrow> Request" where
  "Request_Timeout r d = r\<lparr>timeout := d\<rparr>"

definition Request_VersionedParams :: "Request \<Rightarrow> PodExecOptions \<Rightarrow> Request" where
  "Request_VersionedParams r obj = r\<lparr>params := Some obj\<rparr>"

record StreamOptions =
  Stdin_stream :: "Reader option"
  Stdout_stream :: "Writer option"
  Stderr_stream :: "Writer option"
  Tty :: bool

subsection \<open>The authorization API\<close>

record ResourceAttributes =
  Namespace_attr :: string
  Verb :: string
  Group :: string
  Resource :: string
  Subresource :: string
  Name :: string

record SelfSubjectAccessReviewSpec =
  ResourceAttributes :: "ResourceAttributes option"

record SubjectAccessReviewStatus =
  Allowed :: bool
  Denied :: bool
  Reason :: string
  EvaluationError :: string

record SelfSubjectAccessReview =
  Spec :: SelfSubjectAccessReviewSpec
  Status :: SubjectAccessReviewStatus

text \<open>The zero value of the status, which a struct literal that names no status has.\<close>

definition Status_zero :: SubjectAccessReviewStatus where
  "Status_zero = \<lparr>Allowed = False, Denied = False, Reason = '''', EvaluationError = ''''\<rparr>"

record CreateOptions =
  DryRun :: "string list"
  FieldManager :: string

definition CreateOptions_zero :: CreateOptions where
  "CreateOptions_zero = \<lparr>DryRun = [], FieldManager = ''''\<rparr>"

subsection \<open>Library behaviour\<close>

text \<open>
  What the library functions return is not decided by this package, so the library is a
  parameter: a record of functions, one for each library function that package exec calls
  and whose result it uses. The theorems below hold for every such record. Two things are
  taken for granted about the library: a call into it returns (Stream blocks for the
  length of the remote session and then returns), and it does not write through the
  pointer to the cluster configuration that it is handed.
\<close>

record Library =
  TLSConfigFor :: "Config \<Rightarrow> error + TLSConfig option"
  HTTPWrappersForConfig :: "Config \<Rightarrow> SpdyRoundTripper \<Rightarrow> error + RoundTripper"
  NewSPDYExecutorForTransports ::
    "RoundTripper \<Rightarrow> SpdyRoundTripper \<Rightarrow> string \<Rightarrow> URL \<Rightarrow> error + Executor"
  Request_URL :: "Request \<Rightarrow> URL"
  Executor_Stream :: "Executor \<Rightarrow> StreamOptions \<Rightarrow> error option"
  Duration_String :: "Duration \<Rightarrow> string"

text \<open>
  \<open>kubernetes.Interface\<close>, the clientset embedded in the client: of its API groups the
  package uses \<open>AuthorizationV1().SelfSubjectAccessReviews().Create\<close>.
\<close>

record Interface =
  SelfSubjectAccessReviews_Create ::
    "Context \<Rightarrow> SelfSubjectAccessReview \<Rightarrow> CreateOptions \<Rightarrow> error + SelfSubjectAccessReview"

subsection \<open>Calls\<close>

text \<open>
  The effects of the package are its calls into the library, the logger and the function
  held by the package variable \<open>newExecutor\<close>. Every operation returns the list of the
  calls it made, in order.
\<close>

datatype Field = zap_String string string

datatype call =
    Call_log_Info string "Field list"
  | Call_Request_URL Request URL
  | Call_newExecutor Config string URL "error + Executor"
  | Call_Stream Executor StreamOptions "error option"
  | Call_Create Context SelfSubjectAccessReview CreateOptions
      "error + SelfSubjectAccessReview"
  | Call_cancel Context
  | Call_TLSConfigFor Config "error + TLSConfig option"
  | Call_NewRoundTripperWithConfig RoundTripperConfig
  | Call_HTTPWrappersForConfig Config SpdyRoundTripper "error + RoundTripper"
  | Call_NewSPDYExecutorForTransports RoundTripper SpdyRoundTripper string URL
      "error + Executor"

section \<open>client.go\<close>

record ClientOpt =
  K8sConfig :: Config
  PodName :: string
  ContainerName :: string
  Namespace :: string
  CurrentContext :: string

record Client =
  Interface :: Interface
  ClientOpt :: ClientOpt

text \<open>
  NewClient builds the clientset for the configuration and pairs it with the options.
  \<open>kubernetes.NewForConfig\<close> is the library's, so it is an argument. The clients
  considered below are such pairs: their clientset, their options and the cluster
  configuration in the options are present (not nil).
\<close>

definition NewClient :: "(Config \<Rightarrow> error + Interface) \<Rightarrow> ClientOpt \<Rightarrow> error + Client" where
  "NewClient NewForConfig opt =
    (case NewForConfig (K8sConfig opt) of
       Inl err \<Rightarrow> Inl err
     | Inr k8sClientset \<Rightarrow> Inr \<lparr>Interface = k8sClientset, ClientOpt = opt\<rparr>)"

section \<open>exec.go\<close>

text \<open>The package variable \<open>deniedCreateExecErr\<close>, initialised once with a new error.\<close>

definition deniedCreateExecErr :: error where
  "deniedCreateExecErr =
     ErrorString (Package_var ''deniedCreateExecErr'') ''no permissions to create exec subresource''"

text \<open>
  The outcome of a method of the client: the client as the method leaves it, the calls
  made, the error returned (\<open>None\<close> for nil), and the number of error values that the
  package has allocated by then. A method takes that number as it was before the call;
  an error that \<open>fmt.Errorf\<close> makes in the method gets the next number as its address.
\<close>

record outcome =
  client_after :: Client
  calls :: "call list"
  returned :: "error option"
  allocated_after :: nat

text \<open>
  ExecPod. The package variable \<open>newExecutor\<close> holds a function, so its current value
  is an argument.
\<close>

definition ExecPod ::
  "Library \<Rightarrow> (Config \<Rightarrow> string \<Rightarrow> URL \<Rightarrow> error + Executor) \<Rightarrow> nat \<Rightarrow> Client \<Rightarrow>
   string list \<Rightarrow> Reader option \<Rightarrow> Writer option \<Rightarrow> Writer option \<Rightarrow> bool \<Rightarrow> Duration \<Rightarrow>
   outcome" where
  "ExecPod lib newExecutor allocated c command stdin stdout stderr tty timeout' =
    (let info = Call_log_Info
           ''sending exec request, command=%s, namespace=%S, pod=%s, container=%s''
           [zap_String ''command'' (strings_Join command '' ''),
            zap_String ''namespace'' (Namespace (ClientOpt c)),
            zap_String ''pod'' (PodName (ClientOpt c)),
            zap_String ''container'' (ContainerName (ClientOpt c)),
            zap_String ''timeout'' (Duration_String lib timeout')];
         execRequest =
           Request_Timeout
             (Request_SubResource
               (Request_Name
                 (Request_Namespace
                   (Request_Resource Post ''pods'')
                   (Namespace (ClientOpt c)))
                 (PodName (ClientOpt c)))
               ''exec'')
             timeout';
         execRequest = Request_VersionedParams execRequest
           \<lparr>Stdin = (stdin \<noteq> None),
            Stdout = (stdout \<noteq> None),
            Stderr = (stderr \<noteq> None),
            TTY = tty,
            Container = ContainerName (ClientOpt c),
            Command = command\<rparr>;
         url = Request_URL lib execRequest;
         made = newExecutor (K8sConfig (ClientOpt c)) ''POST'' url;
         setup = [info, Call_Request_URL execRequest url,
                  Call_newExecutor (K8sConfig (ClientOpt c)) ''POST'' url made]
     in case made of
          Inl err \<Rightarrow>
            \<lparr>client_after = c, calls = setup,
             returned = Some (WrapError (Allocated allocated)
               (''failed to set up executor: '' @ Error err) err),
             allocated_after = Suc allocated\<rparr>
        | Inr exec \<Rightarrow>
            (let opts = \<lparr>Stdin_stream = stdin, Stdout_stream = stdout,
                         Stderr_stream = stderr, Tty = tty\<rparr>;
                 streamed = Executor_Stream lib exec opts
             in case streamed of
                  Some err \<Rightarrow>
                    \<lparr>client_after = c, calls = setup @ [Call_Stream exec opts streamed],
                     returned = Some (WrapError (Allocated allocated)
                       (''failed to exec command: '' @ Error err) err),
                     allocated_after = Suc allocated\<rparr>
                | None \<Rightarrow>
                    \<lparr>client_after = c, calls = setup @ [Call_Stream exec opts streamed],
                     returned = None, allocated_after = allocated\<rparr>))"

text \<open>CanExec. The deferred \<open>cancel()\<close> is the last call on every path.\<close>

definition CanExec :: "nat \<Rightarrow> Client \<Rightarrow> outcome" where
  "CanExec allocated c =
    (let selfAccessReview =
           \<lparr>Spec = \<lparr>ResourceAttributes = Some
              \<lparr>Namespace_attr = Namespace (ClientOpt c),
               Verb = ''create'',
               Group = '''',
               Resource = ''pods'',
               Subresource = ''exec'',
               Name = ''''\<rparr>\<rparr>,
            Status = Status_zero\<rparr>;
         checking = Call_log_Info ''checking for exec permissions.''
           [zap_String ''namespace'' (Namespace (ClientOpt c))];
         ctx = WithTimeout Background (10 * Second);
         created = SelfSubjectAccessReviews_Create (Interface c) ctx selfAccessReview
                     CreateOptions_zero;
         create = Call_Create ctx selfAccessReview CreateOptions_zero created
     in case created of
          Inl err \<Rightarrow>
            \<lparr>client_after = c, calls = [checking, create, Call_cancel ctx],
             returned = Some err, allocated_after = allocated\<rparr>
        | Inr response \<Rightarrow>
            if \<not> Allowed (Status response) then
              if Reason (Status response) \<noteq> '''' then
                \<lparr>client_after = c, calls = [checking, create, Call_cancel ctx],
                 returned = Some (WrapError (Allocated allocated)
                   (Error deniedCreateExecErr @ ''. reason: '' @ Reason (Status response))
                   deniedCreateExecErr),
                 allocated_after = Suc allocated\<rparr>
              else
                \<lparr>client_after = c, calls = [checking, create, Call_cancel ctx],
                 returned = Some deniedCreateExecErr, allocated_after = allocated\<rparr>
            else
              \<lparr>client_after = c,
               calls = [checking, create,
                        Call_log_Info ''confirmed exec permissions.''
                          [zap_String ''namespace'' (Namespace (ClientOpt c))],
                        Call_cancel ctx],
               returned = None, allocated_after = allocated\<rparr>)"

text \<open>
  RoundTripperFor returns the calls it made and either the error or the wrapper with the
  upgrading round tripper.
\<close>

definition RoundTripperFor ::
  "Library \<Rightarrow> Config \<Rightarrow> call list \<times> (error + RoundTripper \<times> SpdyRoundTripper)" where
  "RoundTripperFor lib config =
    (let tls = TLSConfigFor lib config
     in case tls of
          Inl err \<Rightarrow> ([Call_TLSConfigFor config tls], Inl err)
        | Inr tlsConfig \<Rightarrow>
            (let proxy = Some ProxyFromEnvironment;
                 proxy = (if Proxy config \<noteq> None then Proxy config else proxy);
                 cfg = \<lparr>TLS = tlsConfig,
                        FollowRedirects = True,
                        RequireSameHostRedirects = False,
                        Proxier = proxy,
                        PingPeriod = 0\<rparr>;
                 upgradeRoundTripper = NewRoundTripperWithConfig cfg;
                 wrapped = HTTPWrappersForConfig lib config upgradeRoundTripper;
                 made = [Call_TLSConfigFor config tls, Call_NewRoundTripperWithConfig cfg,
                         Call_HTTPWrappersForConfig config upgradeRoundTripper wrapped]
             in case wrapped of
                  Inl err \<Rightarrow> (made, Inl err)
                | Inr wrapper \<Rightarrow> (made, Inr (wrapper, upgradeRoundTripper))))"

definition NewSPDYExecutor ::
  "Library \<Rightarrow> Config \<Rightarrow> string \<Rightarrow> URL \<Rightarrow> call list \<times> (error + Executor)" where
  "NewSPDYExecutor lib config method url =
    (case RoundTripperFor lib config of
       (made, Inl err) \<Rightarrow> (made, Inl err)
     | (made, Inr (wrapper, upgradeRoundTripper)) \<Rightarrow>
         (let executor = NewSPDYExecutorForTransports lib wrapper upgradeRoundTripper method url
          in (made @ [Call_NewSPDYExecutorForTransports wrapper upgradeRoundTripper method url
                        executor],
              executor)))"

text \<open>The initial value of the package variable \<open>newExecutor\<close>.\<close>

definition newExecutor_init :: "Library \<Rightarrow> Config \<Rightarrow> string \<Rightarrow> URL \<Rightarrow> error + Executor" where
  "newExecutor_init lib config method url = snd (NewSPDYExecutor lib config method url)"

section \<open>Reading the calls of a run\<close>

text \<open>The requests whose URL was taken, in order.\<close>

fun requests_of :: "call list \<Rightarrow> Request list" where
  "requests_of [] = []"
| "requests_of (Call_Request_URL r u # cs) = r # requests_of cs"
| "requests_of (c # cs) = requests_of cs"

text \<open>The calls of \<open>newExecutor\<close>: configuration, method, URL and what it returned.\<close>

fun executor_setups :: "call list \<Rightarrow> (Config \<times> string \<times> URL \<times> (error + Executor)) list" where
  "executor_setups [] = []"
| "executor_setups (Call_newExecutor cfg m u res # cs) = (cfg, m, u, res) # executor_setups cs"
| "executor_setups (c # cs) = executor_setups cs"

text \<open>The calls of \<open>Stream\<close>: executor, options and the error returned.\<close>

fun streams_of :: "call list \<Rightarrow> (Executor \<times> StreamOptions \<times> error option) list" where
  "streams_of [] = []"
| "streams_of (Call_Stream ex opts res # cs) = (ex, opts, res) # streams_of cs"
| "streams_of (c # cs) = streams_of cs"

text \<open>The authorization queries: context, review, options and what came back.\<close>

fun creates_of ::
  "call list \<Rightarrow>
   (Context \<times> SelfSubjectAccessReview \<times> CreateOptions \<times> (error + SelfSubjectAccessReview)) list"
  where
  "creates_of [] = []"
| "creates_of (Call_Create ctx review opts res # cs) = (ctx, review, opts, res) # creates_of cs"
| "creates_of (c # cs) = creates_of cs"

text \<open>The configurations from which an upgrading round tripper was built.\<close>

fun transports_of :: "call list \<Rightarrow> RoundTripperConfig list" where
  "transports_of [] = []"
| "transports_of (Call_NewRoundTripperWithConfig cfg # cs) = cfg # transports_of cs"
| "transports_of (c # cs) = transports_of cs"

text \<open>\<open>strings.Contains\<close>.\<close>

definition strings_Contains :: "string \<Rightarrow> string \<Rightarrow> bool" where
  "strings_Contains s substr = sublist substr s"

section \<open>Example runs\<close>

text \<open>
  A cluster configuration without and with a proxy function, a client for the container
  \<open>app\<close> of pod \<open>web-0\<close> in namespace \<open>prod\<close>, and library behaviours: the
  authorization API denying with a reason, denying without one, allowing, and failing; an
  executor set-up that fails; a stream that fails.
\<close>

definition example_config :: Config where
  "example_config = \<lparr>Host = ''https://10.0.0.1:6443'', Proxy = None\<rparr>"

definition example_proxy_config :: Config where
  "example_proxy_config =
     \<lparr>Host = ''https://10.0.0.1:6443'', Proxy = Some (ProxyFunc ''corporate'')\<rparr>"

definition example_opt :: ClientOpt where
  "example_opt = \<lparr>K8sConfig = example_config, PodName = ''web-0'', ContainerName = ''app'',
                   Namespace = ''prod'', CurrentContext = ''staging''\<rparr>"

definition example_client :: "SubjectAccessReviewStatus \<Rightarrow> Client" where
  "example_client status =
     \<lparr>Interface = \<lparr>SelfSubjectAccessReviews_Create =
          (\<lambda>ctx review opts. Inr (review\<lparr>Status := status\<rparr>))\<rparr>,
      ClientOpt = example_opt\<rparr>"

definition denied_with_reason :: SubjectAccessReviewStatus where
  "denied_with_reason =
     \<lparr>Allowed = False, Denied = True, Reason = ''RBAC: exec forbidden'', EvaluationError = []\<rparr>"

definition denied_without_reason :: SubjectAccessReviewStatus where
  "denied_without_reason =
     \<lparr>Allowed = False, Denied = False, Reason = [], EvaluationError = []\<rparr>"

definition allowed_status :: SubjectAccessReviewStatus where
  "allowed_status = \<lparr>Allowed = True, Denied = False, Reason = [], EvaluationError = []\<rparr>"

definition unreachable_client :: Client where
  "unreachable_client =
     \<lparr>Interface = \<lparr>SelfSubjectAccessReviews_Create =
          (\<lambda>ctx review opts. Inl (ErrorString (Library_value ''dial'') ''connection refused''))\<rparr>,
      ClientOpt = example_opt\<rparr>"

definition example_library :: Library where
  "example_library =
     \<lparr>TLSConfigFor = (\<lambda>config. Inr (Some (TLSConfig (Host config)))),
      HTTPWrappersForConfig = (\<lambda>config rt. Inr (RoundTripper (Host config))),
      NewSPDYExecutorForTransports = (\<lambda>wrapper upgrader method url. Inr (Executor method)),
      Request_URL = (\<lambda>r. URL (''/namespaces/'' @ namespace r @ ''/'' @ resource r @ ''/''
                                   @ resourceName r @ ''/'' @ subresource r)),
      Executor_Stream = (\<lambda>exec opts. None),
      Duration_String = (\<lambda>d. ''30s'')\<rparr>"

definition broken_stream_library :: Library where
  "broken_stream_library =
     example_library\<lparr>Executor_Stream := (\<lambda>exec opts. Some (ErrorString (Library_value ''spdy'') ''stream closed''))\<rparr>"

text \<open>
  A library that needs no TLS configuration for the cluster and so, as the client library
  does, returns a nil one; and a library that cannot load the certificates.
\<close>

definition plain_http_library :: Library where
  "plain_http_library = example_library\<lparr>TLSConfigFor := (\<lambda>config. Inr None)\<rparr>"

definition broken_tls_library :: Library where
  "broken_tls_library =
     example_library\<lparr>TLSConfigFor :=
       (\<lambda>config. Inl (ErrorString (Library_value ''certs'') ''unable to load root certificates''))\<rparr>"

definition failing_newExecutor :: "Config \<Rightarrow> string \<Rightarrow> URL \<Rightarrow> error + Executor" where
  "failing_newExecutor config method url = Inl (ErrorString (Library_value ''x509'') ''tls: bad certificate'')"

section \<open>What a run of ExecPod calls and returns\<close>

text \<open>
  The requests whose URL ExecPod takes, its calls of \<open>newExecutor\<close> and of Stream, and the
  error it returns, each in terms of what \<open>newExecutor\<close> and the library return.
\<close>

lemmas Request_builders =
  Post_def Request_Resource_def Request_Namespace_def Request_Name_def
  Request_SubResource_def Request_Timeout_def Request_VersionedParams_def

lemma ExecPod_requests:
  "requests_of (calls (ExecPod lib newExecutor allocated c command stdin stdout stderr tty t)) =
     [\<lparr>verb = ''POST'', resource = ''pods'', namespace = Namespace (ClientOpt c),
       resourceName = PodName (ClientOpt c), subresource = ''exec'', timeout = t,
       params = Some \<lparr>Stdin = (stdin \<noteq> None), Stdout = (stdout \<noteq> None),
                      Stderr = (stderr \<noteq> None), TTY = tty,
                      Container = ContainerName (ClientOpt c), Command = command\<rparr>\<rparr>]"
  by (simp add: ExecPod_def Let_def Request_builders split: sum.split option.split)

lemma ExecPod_setups:
  fixes lib newExecutor allocated c command stdin stdout stderr tty t
  defines "url \<equiv> Request_URL lib
     \<lparr>verb = ''POST'', resource = ''pods'', namespace = Namespace (ClientOpt c),
       resourceName = PodName (ClientOpt c), subresource = ''exec'', timeout = t,
       params = Some \<lparr>Stdin = (stdin \<noteq> None), Stdout = (stdout \<noteq> None),
                      Stderr = (stderr \<noteq> None), TTY = tty,
                      Container = ContainerName (ClientOpt c), Command = command\<rparr>\<rparr>"
  shows "executor_setups
           (calls (ExecPod lib newExecutor allocated c command stdin stdout stderr tty t)) =
         [(K8sConfig (ClientOpt c), ''POST'', url,
           newExecutor (K8sConfig (ClientOpt c)) ''POST'' url)]"
  unfolding url_def
  by (simp add: ExecPod_def Let_def Request_builders split: sum.split option.split)

lemma ExecPod_streams:
  fixes lib newExecutor allocated c command stdin stdout stderr tty t
  defines "url \<equiv> Request_URL lib
     \<lparr>verb = ''POST'', resource = ''pods'', namespace = Namespace (ClientOpt c),
       resourceName = PodName (ClientOpt c), subresource = ''exec'', timeout = t,
       params = Some \<lparr>Stdin = (stdin \<noteq> None), Stdout = (stdout \<noteq> None),
                      Stderr = (stderr \<noteq> None), TTY = tty,
                      Container = ContainerName (ClientOpt c), Command = command\<rparr>\<rparr>"
      and "opts \<equiv> \<lparr>Stdin_stream = stdin, Stdout_stream = stdout, Stderr_stream = stderr,
                    Tty = tty\<rparr>"
  shows "streams_of (calls (ExecPod lib newExecutor allocated c command stdin stdout stderr tty t)) =
         (case newExecutor (K8sConfig (ClientOpt c)) ''POST'' url of
            Inl err \<Rightarrow> []
          | Inr exec \<Rightarrow> [(exec, opts, Executor_Stream lib exec opts)])"
  unfolding url_def opts_def
  by (simp add: ExecPod_def Let_def Request_builders split: sum.split option.split)

lemma ExecPod_returned:
  fixes lib newExecutor allocated c command stdin stdout stderr tty t
  defines "url \<equiv> Request_URL lib
     \<lparr>verb = ''POST'', resource = ''pods'', namespace = Namespace (ClientOpt c),
       resourceName = PodName (ClientOpt c), subresource = ''exec'', timeout = t,
       params = Some \<lparr>Stdin = (stdin \<noteq> None), Stdout = (stdout \<noteq> None),
                      Stderr = (stderr \<noteq> None), TTY = tty,
                      Container = ContainerName (ClientOpt c), Command = command\<rparr>\<rparr>"
      and "opts \<equiv> \<lparr>Stdin_stream = stdin, Stdout_stream = stdout, Stderr_stream = stderr,
                    Tty = tty\<rparr>"
  shows "returned (ExecPod lib newExecutor allocated c command stdin stdout stderr tty t) =
         (case newExecutor (K8sConfig (ClientOpt c)) ''POST'' url of
            Inl err \<Rightarrow>
              Some (WrapError (Allocated allocated) (''failed to set up executor: '' @ Error err) err)
          | Inr exec \<Rightarrow>
              (case Executor_Stream lib exec opts of
                 None \<Rightarrow> None
               | Some err \<Rightarrow>
                   Some (WrapError (Allocated allocated)
                     (''failed to exec command: '' @ Error err) err)))"
  unfolding url_def opts_def
  by (simp add: ExecPod_def Let_def Request_builders split: sum.split option.split)

lemma ExecPod_client_after:
  "client_after (ExecPod lib newExecutor allocated c command stdin stdout stderr tty t) = c"
  by (simp add: ExecPod_def Let_def split: sum.split option.split)

section \<open>What a run of CanExec calls and returns\<close>

lemma CanExec_client_after: "client_after (CanExec allocated c) = c"
  by (simp add: CanExec_def Let_def split: sum.split)

lemma creates_of_CanExec:
  fixes allocated c
  defines "review \<equiv>
       \<lparr>Spec = \<lparr>ResourceAttributes = Some
              \<lparr>Namespace_attr = Namespace (ClientOpt c), Verb = ''create'', Group = '''',
               Resource = ''pods'', Subresource = ''exec'', Name = ''''\<rparr>\<rparr>,
        Status = Status_zero\<rparr>"
  shows "creates_of (calls (CanExec allocated c)) =
     [(WithTimeout Background (10 * Second), review, CreateOptions_zero,
       SelfSubjectAccessReviews_Create (Interface c) (WithTimeout Background (10 * Second))
         review CreateOptions_zero)]"
  unfolding review_def
  by (simp add: CanExec_def Let_def split: sum.split)

lemma CanExec_returned:
  fixes allocated c
  defines "review \<equiv>
       \<lparr>Spec = \<lparr>ResourceAttributes = Some
              \<lparr>Namespace_attr = Namespace (ClientOpt c), Verb = ''create'', Group = '''',
               Resource = ''pods'', Subresource = ''exec'', Name = ''''\<rparr>\<rparr>,
        Status = Status_zero\<rparr>"
  shows "returned (CanExec allocated c) =
     (case SelfSubjectAccessReviews_Create (Interface c) (WithTimeout Background (10 * Second))
             review CreateOptions_zero of
        Inl err \<Rightarrow> Some err
      | Inr response \<Rightarrow>
          if Allowed (Status response) then None
          else if Reason (Status response) = '''' then Some deniedCreateExecErr
          else Some (WrapError (Allocated allocated)
                 (Error deniedCreateExecErr @ ''. reason: '' @ Reason (Status response))
                 deniedCreateExecErr))"
  unfolding review_def
  by (simp add: CanExec_def Let_def split: sum.split)


lemma strings_Contains_suffix: "strings_Contains (pre @ s) s"
  unfolding strings_Contains_def by (rule suffix_imp_sublist) (rule suffixI, rule refl)

section \<open>The example runs\<close>

lemma example_client_Create:
  "SelfSubjectAccessReviews_Create (Interface (example_client status)) ctx review opts =
     Inr (review\<lparr>Status := status\<rparr>)"
  by (simp add: example_client_def)

lemma example_client_opt: "ClientOpt (example_client status) = example_opt"
  by (simp add: example_client_def)

lemma unreachable_client_Create:
  "SelfSubjectAccessReviews_Create (Interface unreachable_client) ctx review opts =
     Inl (ErrorString (Library_value ''dial'') ''connection refused'')"
  by (simp add: unreachable_client_def)

lemma unreachable_client_opt: "ClientOpt unreachable_client = example_opt"
  by (simp add: unreachable_client_def)

lemma example_opt_fields:
  "K8sConfig example_opt = example_config"
  "PodName example_opt = ''web-0''"
  "ContainerName example_opt = ''app''"
  "Namespace example_opt = ''prod''"
  by (simp_all add: example_opt_def)

section \<open>The permission probe: denial\<close>

text \<open>
  Claim C1. CanExec asks the authorization API once: under the ten-second context, with
  the access review for the client's namespace and with empty options. When the API
  answers that query with a response whose \<open>Status.Allowed\<close> is false, CanExec returns a
  non-nil error; when moreover \<open>Status.Reason\<close> is not the empty string, the message of
  that error contains the reason.
\<close>

theorem CanExec_denied_error:
  fixes allocated c response
  defines "review \<equiv>
       \<lparr>Spec = \<lparr>ResourceAttributes = Some
              \<lparr>Namespace_attr = Namespace (ClientOpt c), Verb = ''create'', Group = '''',
               Resource = ''pods'', Subresource = ''exec'', Name = ''''\<rparr>\<rparr>,
        Status = Status_zero\<rparr>"
  assumes reply: "SelfSubjectAccessReviews_Create (Interface c)
                    (WithTimeout Background (10 * Second)) review CreateOptions_zero =
                  Inr response"
      and denied: "\<not> Allowed (Status response)"
  shows "\<exists>e. returned (CanExec allocated c) = Some e \<and>
             (Reason (Status response) \<noteq> '''' \<longrightarrow>
                strings_Contains (Error e) (Reason (Status response))) \<and>
             creates_of (calls (CanExec allocated c)) =
               [(WithTimeout Background (10 * Second), review, CreateOptions_zero, Inr response)]"
proof -
  have logged: "creates_of (calls (CanExec allocated c)) =
      [(WithTimeout Background (10 * Second), review, CreateOptions_zero, Inr response)]"
    using reply unfolding creates_of_CanExec review_def by simp
  have result: "returned (CanExec allocated c) =
      (if Reason (Status response) = '''' then Some deniedCreateExecErr
       else Some (WrapError (Allocated allocated)
              (Error deniedCreateExecErr @ ''. reason: '' @ Reason (Status response))
              deniedCreateExecErr))"
    using reply denied unfolding CanExec_returned review_def by simp
  have "strings_Contains
          ((Error deniedCreateExecErr @ ''. reason: '') @ Reason (Status response))
          (Reason (Status response))"
    by (rule strings_Contains_suffix)
  with logged result show ?thesis by simp
qed

theorem CanExec_denied_error_witness:
  "\<not> Allowed denied_with_reason \<and> Reason denied_with_reason = ''RBAC: exec forbidden'' \<and>
   (\<exists>e. returned (CanExec 0 (example_client denied_with_reason)) = Some e \<and>
        strings_Contains (Error e) ''RBAC: exec forbidden'')"
proof -
  let ?review = "\<lparr>Spec = \<lparr>ResourceAttributes = Some
              \<lparr>Namespace_attr = Namespace (ClientOpt (example_client denied_with_reason)),
               Verb = ''create'', Group = '''',
               Resource = ''pods'', Subresource = ''exec'', Name = ''''\<rparr>\<rparr>,
        Status = Status_zero\<rparr>"
  have reply: "SelfSubjectAccessReviews_Create (Interface (example_client denied_with_reason))
      (WithTimeout Background (10 * Second)) ?review CreateOptions_zero =
      Inr (?review\<lparr>Status := denied_with_reason\<rparr>)"
    by (rule example_client_Create)
  have denied: "\<not> Allowed (Status (?review\<lparr>Status := denied_with_reason\<rparr>))"
    by (simp add: denied_with_reason_def)
  from CanExec_denied_error [OF reply denied, of 0] show ?thesis
    by (auto simp add: denied_with_reason_def)
qed

section \<open>The exec request\<close>

text \<open>
  Claim C2. Whatever the arguments of ExecPod, it takes the URL of one request, and the
  PodExecOptions on that request have Stdin true exactly when the stdin argument is not
  nil, Stdout true exactly when stdout is not nil, Stderr true exactly when stderr is not
  nil, and TTY equal to the tty argument. This is the request that is sent: the one call
  of \<open>newExecutor\<close> is on the URL of that request, and ExecPod returns nil exactly when
  that call gives an executor on which Stream returns no error.
\<close>

theorem ExecPod_stream_flags:
  fixes lib newExecutor allocated c command stdin stdout stderr tty t
  defines "streams \<equiv> \<lparr>Stdin_stream = stdin, Stdout_stream = stdout, Stderr_stream = stderr,
                       Tty = tty\<rparr>"
  shows "\<exists>r p.
     requests_of (calls (ExecPod lib newExecutor allocated c command stdin stdout stderr tty t)) =
       [r] \<and>
     params r = Some p \<and>
     Stdin p = (stdin \<noteq> None) \<and>
     Stdout p = (stdout \<noteq> None) \<and>
     Stderr p = (stderr \<noteq> None) \<and>
     TTY p = tty \<and>
     executor_setups
         (calls (ExecPod lib newExecutor allocated c command stdin stdout stderr tty t)) =
       [(K8sConfig (ClientOpt c), ''POST'', Request_URL lib r,
         newExecutor (K8sConfig (ClientOpt c)) ''POST'' (Request_URL lib r))] \<and>
     (returned (ExecPod lib newExecutor allocated c command stdin stdout stderr tty t) = None) =
       (\<exists>exec. newExecutor (K8sConfig (ClientOpt c)) ''POST'' (Request_URL lib r) = Inr exec \<and>
               Executor_Stream lib exec streams = None)"
  unfolding ExecPod_requests ExecPod_setups ExecPod_returned streams_def
  by (auto split: sum.splits option.splits)

theorem ExecPod_stream_flags_witness:
  "\<exists>r p.
     requests_of (calls (ExecPod example_library (newExecutor_init example_library) 0
        (example_client allowed_status) [''ls'', ''-l''] None (Some (Writer ''out'')) None True
        (30 * Second))) = [r] \<and>
     params r = Some p \<and> \<not> Stdin p \<and> Stdout p \<and> \<not> Stderr p \<and> TTY p \<and>
     executor_setups (calls (ExecPod example_library (newExecutor_init example_library) 0
        (example_client allowed_status) [''ls'', ''-l''] None (Some (Writer ''out'')) None True
        (30 * Second))) =
       [(example_config, ''POST'', Request_URL example_library r, Inr (Executor ''POST''))]"
proof -
  have made: "newExecutor_init example_library cfg ''POST'' url = Inr (Executor ''POST'')"
    for cfg url
    by (simp add: newExecutor_init_def NewSPDYExecutor_def RoundTripperFor_def Let_def
        example_library_def)
  from ExecPod_stream_flags [of example_library "newExecutor_init example_library" 0
          "example_client allowed_status" "[''ls'', ''-l'']" None "Some (Writer ''out'')" None
          True "30 * Second"]
  show ?thesis
    unfolding made by (simp add: example_client_opt example_opt_fields) blast
qed

section \<open>The permission probe: permission granted\<close>



section \<open>Errors of the library\<close>

text \<open>
  Claim C4 as the specification states it says that every error that ExecPod or CanExec
  returns is the library's error or wraps it. That does not hold for CanExec. In the run
  below the one call into the authorization API returns a response and no error; the
  response denies the permission and gives no reason. CanExec returns
  \<open>deniedCreateExecErr\<close>: the value of a variable of the package, not a value of the
  library, and one that wraps nothing.
\<close>

theorem denial_error_is_not_a_library_error:
  "SelfSubjectAccessReviews_Create (Interface (example_client denied_without_reason))
      (WithTimeout Background (10 * Second))
      \<lparr>Spec = \<lparr>ResourceAttributes = Some
              \<lparr>Namespace_attr = ''prod'', Verb = ''create'', Group = '''',
               Resource = ''pods'', Subresource = ''exec'', Name = ''''\<rparr>\<rparr>,
        Status = Status_zero\<rparr>
      CreateOptions_zero =
     Inr \<lparr>Spec = \<lparr>ResourceAttributes = Some
              \<lparr>Namespace_attr = ''prod'', Verb = ''create'', Group = '''',
               Resource = ''pods'', Subresource = ''exec'', Name = ''''\<rparr>\<rparr>,
          Status = denied_without_reason\<rparr> \<and>
   creates_of (calls (CanExec 0 (example_client denied_without_reason))) =
     [(WithTimeout Background (10 * Second),
       \<lparr>Spec = \<lparr>ResourceAttributes = Some
              \<lparr>Namespace_attr = ''prod'', Verb = ''create'', Group = '''',
               Resource = ''pods'', Subresource = ''exec'', Name = ''''\<rparr>\<rparr>,
        Status = Status_zero\<rparr>,
       CreateOptions_zero,
       Inr \<lparr>Spec = \<lparr>ResourceAttributes = Some
              \<lparr>Namespace_attr = ''prod'', Verb = ''create'', Group = '''',
               Resource = ''pods'', Subresource = ''exec'', Name = ''''\<rparr>\<rparr>,
            Status = denied_without_reason\<rparr>)] \<and>
   returned (CanExec 0 (example_client denied_without_reason)) = Some deniedCreateExecErr \<and>
   Unwrap deniedCreateExecErr = None \<and>
   address_of deniedCreateExecErr = Package_var ''deniedCreateExecErr''"
proof -
  have "returned (CanExec 0 (example_client denied_without_reason)) = Some deniedCreateExecErr"
    unfolding CanExec_returned example_client_Create
    by (simp add: denied_without_reason_def)
  moreover have "Unwrap deniedCreateExecErr = None"
    "address_of deniedCreateExecErr = Package_var ''deniedCreateExecErr''"
    by (simp_all add: deniedCreateExecErr_def)
  ultimately show ?thesis
    unfolding creates_of_CanExec example_client_Create
    by (simp add: example_client_opt example_opt_fields)
qed


text \<open>
  Claim C4, amended. Every error that ExecPod returns wraps the error of the library.
  When \<open>newExecutor\<close>, called on the URL of the exec request, fails, ExecPod returns a new
  error with the message "failed to set up executor: ..." that unwraps to the error of
  \<open>newExecutor\<close>, and Stream is not called. When Stream, called on the executor with the
  caller's streams, fails, ExecPod returns a new error with the message
  "failed to exec command: ..." that unwraps to the error of Stream. When neither fails
  ExecPod returns nil. Every error that CanExec returns is the error of the authorization
  request itself, returned as it is, or, when that request came back with a response that
  denies the permission, the package's own denial error: \<open>deniedCreateExecErr\<close> itself
  when the response has no reason, a new error that unwraps to it otherwise. Neither
  operation retries or recovers: \<open>newExecutor\<close> is called once, Stream at most once, the
  authorization request is made once, and an error of any of them is always returned.
\<close>

theorem errors_surfaced:
  fixes lib newExecutor allocated c command stdin stdout stderr tty t allocated' c'
  defines "url \<equiv> Request_URL lib
     \<lparr>verb = ''POST'', resource = ''pods'', namespace = Namespace (ClientOpt c),
       resourceName = PodName (ClientOpt c), subresource = ''exec'', timeout = t,
       params = Some \<lparr>Stdin = (stdin \<noteq> None), Stdout = (stdout \<noteq> None),
                      Stderr = (stderr \<noteq> None), TTY = tty,
                      Container = ContainerName (ClientOpt c), Command = command\<rparr>\<rparr>"
  defines "set_up \<equiv> newExecutor (K8sConfig (ClientOpt c)) ''POST'' url"
  defines "streams \<equiv> \<lparr>Stdin_stream = stdin, Stdout_stream = stdout, Stderr_stream = stderr,
                       Tty = tty\<rparr>"
  defines "review \<equiv>
       \<lparr>Spec = \<lparr>ResourceAttributes = Some
              \<lparr>Namespace_attr = Namespace (ClientOpt c'), Verb = ''create'', Group = '''',
               Resource = ''pods'', Subresource = ''exec'', Name = ''''\<rparr>\<rparr>,
        Status = Status_zero\<rparr>"
  defines "reply \<equiv> SelfSubjectAccessReviews_Create (Interface c')
                     (WithTimeout Background (10 * Second)) review CreateOptions_zero"
  shows
  "(\<forall>err. set_up = Inl err \<longrightarrow>
      (\<exists>e. returned (ExecPod lib newExecutor allocated c command stdin stdout stderr tty t) =
             Some e \<and>
           Unwrap e = Some err \<and>
           Error e = ''failed to set up executor: '' @ Error err \<and>
           address_of e = Allocated allocated) \<and>
      streams_of (calls (ExecPod lib newExecutor allocated c command stdin stdout stderr tty t)) =
        []) \<and>
   (\<forall>exec err. set_up = Inr exec \<and> Executor_Stream lib exec streams = Some err \<longrightarrow>
      (\<exists>e. returned (ExecPod lib newExecutor allocated c command stdin stdout stderr tty t) =
             Some e \<and>
           Unwrap e = Some err \<and>
           Error e = ''failed to exec command: '' @ Error err \<and>
           address_of e = Allocated allocated) \<and>
      streams_of (calls (ExecPod lib newExecutor allocated c command stdin stdout stderr tty t)) =
        [(exec, streams, Some err)]) \<and>
   (\<forall>exec. set_up = Inr exec \<and> Executor_Stream lib exec streams = None \<longrightarrow>
      returned (ExecPod lib newExecutor allocated c command stdin stdout stderr tty t) = None \<and>
      streams_of (calls (ExecPod lib newExecutor allocated c command stdin stdout stderr tty t)) =
        [(exec, streams, None)]) \<and>
   executor_setups
       (calls (ExecPod lib newExecutor allocated c command stdin stdout stderr tty t)) =
     [(K8sConfig (ClientOpt c), ''POST'', url, set_up)] \<and>
   (\<forall>err. reply = Inl err \<longrightarrow> returned (CanExec allocated' c') = Some err) \<and>
   (\<forall>response. reply = Inr response \<and> \<not> Allowed (Status response) \<longrightarrow>
      (\<exists>e. returned (CanExec allocated' c') = Some e \<and>
           (if Reason (Status response) = '''' then e = deniedCreateExecErr
            else Unwrap e = Some deniedCreateExecErr \<and> address_of e = Allocated allocated') \<and>
           errors_Is e deniedCreateExecErr)) \<and>
   (\<forall>response. reply = Inr response \<and> Allowed (Status response) \<longrightarrow>
      returned (CanExec allocated' c') = None) \<and>
   creates_of (calls (CanExec allocated' c')) =
     [(WithTimeout Background (10 * Second), review, CreateOptions_zero, reply)]"
proof -
  let ?run = "ExecPod lib newExecutor allocated c command stdin stdout stderr tty t"
  have setups: "executor_setups (calls ?run) = [(K8sConfig (ClientOpt c), ''POST'', url, set_up)]"
    unfolding ExecPod_setups set_up_def url_def by simp
  have failed: "\<forall>err. set_up = Inl err \<longrightarrow>
      (\<exists>e. returned ?run = Some e \<and> Unwrap e = Some err \<and>
           Error e = ''failed to set up executor: '' @ Error err \<and>
           address_of e = Allocated allocated) \<and>
      streams_of (calls ?run) = []"
    unfolding ExecPod_returned ExecPod_streams set_up_def url_def by simp
  have broken: "\<forall>exec err. set_up = Inr exec \<and> Executor_Stream lib exec streams = Some err \<longrightarrow>
      (\<exists>e. returned ?run = Some e \<and> Unwrap e = Some err \<and>
           Error e = ''failed to exec command: '' @ Error err \<and>
           address_of e = Allocated allocated) \<and>
      streams_of (calls ?run) = [(exec, streams, Some err)]"
    unfolding ExecPod_returned ExecPod_streams set_up_def url_def streams_def by simp
  have finished: "\<forall>exec. set_up = Inr exec \<and> Executor_Stream lib exec streams = None \<longrightarrow>
      returned ?run = None \<and> streams_of (calls ?run) = [(exec, streams, None)]"
    unfolding ExecPod_returned ExecPod_streams set_up_def url_def streams_def by simp
  have asked: "creates_of (calls (CanExec allocated' c')) =
      [(WithTimeout Background (10 * Second), review, CreateOptions_zero, reply)]"
    unfolding creates_of_CanExec reply_def review_def by simp
  have unreachable: "\<forall>err. reply = Inl err \<longrightarrow> returned (CanExec allocated' c') = Some err"
    unfolding CanExec_returned reply_def review_def by simp
  have denied: "\<forall>response. reply = Inr response \<and> \<not> Allowed (Status response) \<longrightarrow>
      (\<exists>e. returned (CanExec allocated' c') = Some e \<and>
           (if Reason (Status response) = '''' then e = deniedCreateExecErr
            else Unwrap e = Some deniedCreateExecErr \<and> address_of e = Allocated allocated') \<and>
           errors_Is e deniedCreateExecErr)"
    unfolding CanExec_returned reply_def review_def
    by (simp add: deniedCreateExecErr_def)
  have allowed: "\<forall>response. reply = Inr response \<and> Allowed (Status response) \<longrightarrow>
      returned (CanExec allocated' c') = None"
    unfolding CanExec_returned reply_def review_def by simp
  from failed broken finished setups unreachable denied allowed asked
  show ?thesis by (intro conjI)
qed

theorem errors_surfaced_witness:
  "returned (ExecPod example_library failing_newExecutor 0 (example_client allowed_status)
      [''ls''] None None None False (30 * Second)) =
     Some (WrapError (Allocated 0) ''failed to set up executor: tls: bad certificate''
       (ErrorString (Library_value ''x509'') ''tls: bad certificate'')) \<and>
   streams_of (calls (ExecPod example_library failing_newExecutor 0
      (example_client allowed_status) [''ls''] None None None False (30 * Second))) = [] \<and>
   returned (ExecPod broken_stream_library (newExecutor_init broken_stream_library) 0
      (example_client allowed_status) [''ls''] None None None False (30 * Second)) =
     Some (WrapError (Allocated 0) ''failed to exec command: stream closed''
       (ErrorString (Library_value ''spdy'') ''stream closed'')) \<and>
   returned (CanExec 0 unreachable_client) =
     Some (ErrorString (Library_value ''dial'') ''connection refused'') \<and>
   (\<exists>e. returned (CanExec 0 (example_client denied_with_reason)) = Some e \<and>
        Unwrap e = Some deniedCreateExecErr \<and> errors_Is e deniedCreateExecErr) \<and>
   returned (CanExec 0 (example_client denied_without_reason)) = Some deniedCreateExecErr \<and>
   returned (CanExec 0 (example_client allowed_status)) = None"
proof -
  have made:
    "newExecutor_init broken_stream_library cfg ''POST'' url = Inr (Executor ''POST'')"
    "failing_newExecutor cfg ''POST'' url =
       Inl (ErrorString (Library_value ''x509'') ''tls: bad certificate'')"
    for cfg url
    by (simp_all add: newExecutor_init_def NewSPDYExecutor_def RoundTripperFor_def Let_def
        example_library_def broken_stream_library_def failing_newExecutor_def)
  have streamed:
    "Executor_Stream broken_stream_library exec opts =
       Some (ErrorString (Library_value ''spdy'') ''stream closed'')"
    for exec opts
    by (simp add: example_library_def broken_stream_library_def)
  have wrap: "(Unwrap e = Some err \<and> Error e = m \<and> address_of e = a) = (e = WrapError a m err)"
    for e err m a
    by (cases e) auto
  from errors_surfaced [where lib = example_library and newExecutor = "failing_newExecutor" and allocated = 0
         and c = "example_client allowed_status" and command = "[''ls'']" and stdin = None
         and stdout = None and stderr = None and tty = False and t = "30 * Second"
         and allocated' = 0 and c' = "unreachable_client"]
  have first:
    "returned (ExecPod example_library failing_newExecutor 0 (example_client allowed_status)
      [''ls''] None None None False (30 * Second)) =
     Some (WrapError (Allocated 0) ''failed to set up executor: tls: bad certificate''
       (ErrorString (Library_value ''x509'') ''tls: bad certificate''))"
    "streams_of (calls (ExecPod example_library failing_newExecutor 0
      (example_client allowed_status) [''ls''] None None None False (30 * Second))) = []"
    "returned (CanExec 0 unreachable_client) =
     Some (ErrorString (Library_value ''dial'') ''connection refused'')"
    unfolding made unreachable_client_Create by (simp_all add: wrap)
  from errors_surfaced [where lib = broken_stream_library and newExecutor = "newExecutor_init broken_stream_library" and allocated = 0
         and c = "example_client allowed_status" and command = "[''ls'']" and stdin = None
         and stdout = None and stderr = None and tty = False and t = "30 * Second"
         and allocated' = 0 and c' = "example_client denied_with_reason"]
  have second:
    "returned (ExecPod broken_stream_library (newExecutor_init broken_stream_library) 0
      (example_client allowed_status) [''ls''] None None None False (30 * Second)) =
     Some (WrapError (Allocated 0) ''failed to exec command: stream closed''
       (ErrorString (Library_value ''spdy'') ''stream closed''))"
    "\<exists>e. returned (CanExec 0 (example_client denied_with_reason)) = Some e \<and>
        Unwrap e = Some deniedCreateExecErr \<and> errors_Is e deniedCreateExecErr"
    unfolding made streamed example_client_Create
    by (auto simp add: wrap denied_with_reason_def)
  from errors_surfaced [where lib = example_library and newExecutor = "failing_newExecutor" and allocated = 0
         and c = "example_client allowed_status" and command = "[''ls'']" and stdin = None
         and stdout = None and stderr = None and tty = False and t = "30 * Second"
         and allocated' = 0 and c' = "example_client denied_without_reason"]
  have third:
    "returned (CanExec 0 (example_client denied_without_reason)) = Some deniedCreateExecErr"
    unfolding example_client_Create
    by (auto simp add: denied_without_reason_def)
  from errors_surfaced [where lib = example_library and newExecutor = "failing_newExecutor" and allocated = 0
         and c = "example_client allowed_status" and command = "[''ls'']" and stdin = None
         and stdout = None and stderr = None and tty = False and t = "30 * Second"
         and allocated' = 0 and c' = "example_client allowed_status"]
  have fourth: "returned (CanExec 0 (example_client allowed_status)) = None"
    unfolding example_client_Create
    by (simp add: allowed_status_def)
  from first second third fourth show ?thesis by (intro conjI)
qed

section \<open>The timeout and the result of ExecPod\<close>

text \<open>
  Claim C5. For every call of ExecPod with timeout \<open>t\<close>, the one request whose URL is
  taken has \<open>t\<close> as its timeout, and \<open>newExecutor\<close> is called once, on that URL. Stream
  is called exactly when \<open>newExecutor\<close> gave an executor, on that executor and with the
  caller's streams. ExecPod returns nil exactly when \<open>newExecutor\<close> gave an executor and
  Stream on it returned no error.
\<close>

theorem ExecPod_timeout_and_result:
  fixes lib newExecutor allocated c command stdin stdout stderr tty t
  defines "streams \<equiv> \<lparr>Stdin_stream = stdin, Stdout_stream = stdout, Stderr_stream = stderr,
                       Tty = tty\<rparr>"
  shows "\<exists>r.
     requests_of (calls (ExecPod lib newExecutor allocated c command stdin stdout stderr tty t)) =
       [r] \<and>
     timeout r = t \<and>
     executor_setups
         (calls (ExecPod lib newExecutor allocated c command stdin stdout stderr tty t)) =
       [(K8sConfig (ClientOpt c), ''POST'', Request_URL lib r,
         newExecutor (K8sConfig (ClientOpt c)) ''POST'' (Request_URL lib r))] \<and>
     streams_of (calls (ExecPod lib newExecutor allocated c command stdin stdout stderr tty t)) =
       (case newExecutor (K8sConfig (ClientOpt c)) ''POST'' (Request_URL lib r) of
          Inl err \<Rightarrow> []
        | Inr exec \<Rightarrow> [(exec, streams, Executor_Stream lib exec streams)]) \<and>
     (returned (ExecPod lib newExecutor allocated c command stdin stdout stderr tty t) = None) =
       (\<exists>exec. newExecutor (K8sConfig (ClientOpt c)) ''POST'' (Request_URL lib r) = Inr exec \<and>
               Executor_Stream lib exec streams = None)"
  unfolding ExecPod_requests ExecPod_setups ExecPod_returned ExecPod_streams streams_def
  by (auto split: sum.splits option.splits)

theorem ExecPod_timeout_and_result_witness:
  "(\<exists>r. requests_of (calls (ExecPod example_library (newExecutor_init example_library) 0
        (example_client allowed_status) [''ls''] None None None False (30 * Second))) = [r] \<and>
     timeout r = 30 * Second) \<and>
   returned (ExecPod example_library (newExecutor_init example_library) 0
        (example_client allowed_status) [''ls''] None None None False (30 * Second)) = None \<and>
   returned (ExecPod broken_stream_library (newExecutor_init broken_stream_library) 0
        (example_client allowed_status) [''ls''] None None None False (30 * Second)) \<noteq> None \<and>
   returned (ExecPod example_library failing_newExecutor 0
        (example_client allowed_status) [''ls''] None None None False (30 * Second)) \<noteq> None"
proof -
  have made: "newExecutor_init example_library cfg ''POST'' url = Inr (Executor ''POST'')"
             "newExecutor_init broken_stream_library cfg ''POST'' url = Inr (Executor ''POST'')"
    for cfg url
    by (simp_all add: newExecutor_init_def NewSPDYExecutor_def RoundTripperFor_def Let_def
        example_library_def broken_stream_library_def)
  have streamed:
    "Executor_Stream example_library exec opts = None"
    "Executor_Stream broken_stream_library exec opts =
       Some (ErrorString (Library_value ''spdy'') ''stream closed'')"
    for exec opts
    by (simp_all add: example_library_def broken_stream_library_def)
  from ExecPod_timeout_and_result [of example_library "newExecutor_init example_library" 0
          "example_client allowed_status" "[''ls'']" None None None False "30 * Second"]
       ExecPod_timeout_and_result [of broken_stream_library
          "newExecutor_init broken_stream_library" 0
          "example_client allowed_status" "[''ls'']" None None None False "30 * Second"]
       ExecPod_timeout_and_result [of example_library failing_newExecutor 0
          "example_client allowed_status" "[''ls'']" None None None False "30 * Second"]
  show ?thesis
    unfolding made streamed failing_newExecutor_def by auto
qed

section \<open>The timeout of the permission probe\<close>

text \<open>
  Claim C6. Every call of CanExec makes its one authorization request under the context
  \<open>WithTimeout Background (10 * Second)\<close>, whatever the client: a constant timeout of ten
  seconds, that is 10 000 000 000 nanoseconds. What CanExec returns is decided by the
  answer to the request under that context: the error of the request, or nil exactly when
  the response allows.
\<close>

theorem CanExec_fixed_timeout:
  fixes allocated c
  defines "review \<equiv>
       \<lparr>Spec = \<lparr>ResourceAttributes = Some
              \<lparr>Namespace_attr = Namespace (ClientOpt c), Verb = ''create'', Group = '''',
               Resource = ''pods'', Subresource = ''exec'', Name = ''''\<rparr>\<rparr>,
        Status = Status_zero\<rparr>"
  defines "reply \<equiv> SelfSubjectAccessReviews_Create (Interface c)
                     (WithTimeout Background (10 * Second)) review CreateOptions_zero"
  shows "creates_of (calls (CanExec allocated c)) =
           [(WithTimeout Background (10 * Second), review, CreateOptions_zero, reply)] \<and>
         (\<forall>err. reply = Inl err \<longrightarrow> returned (CanExec allocated c) = Some err) \<and>
         (\<forall>response. reply = Inr response \<longrightarrow>
            (returned (CanExec allocated c) = None) = Allowed (Status response)) \<and>
         sint (10 * Second) = 10 * 1000000000"
  unfolding creates_of_CanExec CanExec_returned reply_def review_def
  by (simp add: Second_def)

theorem CanExec_fixed_timeout_witness:
  "(\<exists>review opts reply.
      creates_of (calls (CanExec 0 unreachable_client)) =
        [(WithTimeout Background 10000000000, review, opts, reply)]) \<and>
   returned (CanExec 0 unreachable_client) =
     Some (ErrorString (Library_value ''dial'') ''connection refused'') \<and>
   returned (CanExec 0 (example_client allowed_status)) = None"
  using CanExec_fixed_timeout [of 0 unreachable_client]
        CanExec_fixed_timeout [of 0 "example_client allowed_status"]
  unfolding unreachable_client_Create example_client_Create
  by (simp add: Second_def allowed_status_def)

section \<open>The configuration is only read\<close>

text \<open>
  Claim C7. ExecPod and CanExec leave the client as they found it, so K8sConfig, PodName,
  ContainerName, Namespace and CurrentContext are the same before and after. The exec
  request carries the client's namespace, its pod name as the resource name and its
  container name in the PodExecOptions; \<open>newExecutor\<close> receives the client's K8sConfig;
  the access review carries the client's namespace.
\<close>

theorem configuration_unchanged:
  "client_after (ExecPod lib newExecutor allocated c command stdin stdout stderr tty t) = c \<and>
   client_after (CanExec allocated' c) = c \<and>
   (\<exists>r p url res.
      requests_of (calls (ExecPod lib newExecutor allocated c command stdin stdout stderr tty t)) =
        [r] \<and>
      namespace r = Namespace (ClientOpt c) \<and>
      resourceName r = PodName (ClientOpt c) \<and>
      params r = Some p \<and>
      Container p = ContainerName (ClientOpt c) \<and>
      executor_setups
          (calls (ExecPod lib newExecutor allocated c command stdin stdout stderr tty t)) =
        [(K8sConfig (ClientOpt c), ''POST'', url, res)]) \<and>
   (\<exists>ctx review opts res attrs.
      creates_of (calls (CanExec allocated' c)) = [(ctx, review, opts, res)] \<and>
      ResourceAttributes (Spec review) = Some attrs \<and>
      Namespace_attr attrs = Namespace (ClientOpt c))"
proof -
  have exec: "\<exists>r p url res.
      requests_of (calls (ExecPod lib newExecutor allocated c command stdin stdout stderr tty t)) =
        [r] \<and>
      namespace r = Namespace (ClientOpt c) \<and>
      resourceName r = PodName (ClientOpt c) \<and>
      params r = Some p \<and>
      Container p = ContainerName (ClientOpt c) \<and>
      executor_setups
          (calls (ExecPod lib newExecutor allocated c command stdin stdout stderr tty t)) =
        [(K8sConfig (ClientOpt c), ''POST'', url, res)]"
    unfolding ExecPod_requests ExecPod_setups by simp
  have probe: "\<exists>ctx review opts res attrs.
      creates_of (calls (CanExec allocated' c)) = [(ctx, review, opts, res)] \<and>
      ResourceAttributes (Spec review) = Some attrs \<and>
      Namespace_attr attrs = Namespace (ClientOpt c)"
    unfolding creates_of_CanExec by simp
  from exec probe show ?thesis
    by (simp only: ExecPod_client_after CanExec_client_after simp_thms)
qed

theorem configuration_unchanged_witness:
  "client_after (ExecPod broken_stream_library (newExecutor_init broken_stream_library) 0
      unreachable_client [''sh''] (Some (Reader ''in'')) None None True 0) = unreachable_client \<and>
   client_after (CanExec 0 unreachable_client) = unreachable_client"
  using configuration_unchanged [of broken_stream_library
          "newExecutor_init broken_stream_library" 0 unreachable_client "[''sh'']"
          "Some (Reader ''in'')" None None True 0 0]
  by simp

section \<open>The authorization query\<close>

text \<open>
  Claim C8. The access review that CanExec sends always has the client's namespace, verb
  "create", the empty group, resource "pods", subresource "exec" and the empty resource
  name: it never names the pod of the client. It is the review of the one request that
  CanExec makes, and what CanExec returns is decided by the answer to that request.
\<close>

theorem CanExec_query:
  fixes allocated c
  defines "review \<equiv>
       \<lparr>Spec = \<lparr>ResourceAttributes = Some
              \<lparr>Namespace_attr = Namespace (ClientOpt c),
               Verb = ''create'',
               Group = '''',
               Resource = ''pods'',
               Subresource = ''exec'',
               Name = ''''\<rparr>\<rparr>,
        Status = Status_zero\<rparr>"
  defines "reply \<equiv> SelfSubjectAccessReviews_Create (Interface c)
                     (WithTimeout Background (10 * Second)) review CreateOptions_zero"
  shows "creates_of (calls (CanExec allocated c)) =
           [(WithTimeout Background (10 * Second), review, CreateOptions_zero, reply)] \<and>
         (\<forall>err. reply = Inl err \<longrightarrow> returned (CanExec allocated c) = Some err) \<and>
         (\<forall>response. reply = Inr response \<longrightarrow>
            (returned (CanExec allocated c) = None) = Allowed (Status response))"
  unfolding creates_of_CanExec CanExec_returned reply_def review_def
  by simp

theorem CanExec_query_witness:
  "(\<exists>ctx review opts reply.
     creates_of (calls (CanExec 0 (example_client allowed_status))) =
       [(ctx, review, opts, reply)] \<and>
     ResourceAttributes (Spec review) = Some
       \<lparr>Namespace_attr = ''prod'', Verb = ''create'', Group = '''', Resource = ''pods'',
        Subresource = ''exec'', Name = ''''\<rparr>) \<and>
   returned (CanExec 0 (example_client allowed_status)) = None \<and>
   returned (CanExec 0 unreachable_client) =
     Some (ErrorString (Library_value ''dial'') ''connection refused'')"
  using CanExec_query [of 0 "example_client allowed_status"]
        CanExec_query [of 0 unreachable_client]
  unfolding unreachable_client_Create example_client_Create
  by (simp add: allowed_status_def example_client_opt example_opt_fields)

section \<open>The denial error\<close>

text \<open>
  Claim C9. When the response to CanExec's query denies the permission and its reason is
  empty, CanExec returns \<open>deniedCreateExecErr\<close> itself, the value of the package variable,
  whose message is "no permissions to create exec subresource". When the reason is not
  empty, CanExec returns a new error that unwraps to \<open>deniedCreateExecErr\<close>. In both cases
  \<open>errors.Is\<close> finds \<open>deniedCreateExecErr\<close> in the error returned, and it does so by
  identity: an error that wraps nothing and has the same message matches only if it is at
  the address of the package variable.
\<close>

theorem CanExec_denied_sentinel:
  fixes allocated c response
  defines "review \<equiv>
       \<lparr>Spec = \<lparr>ResourceAttributes = Some
              \<lparr>Namespace_attr = Namespace (ClientOpt c), Verb = ''create'', Group = '''',
               Resource = ''pods'', Subresource = ''exec'', Name = ''''\<rparr>\<rparr>,
        Status = Status_zero\<rparr>"
  assumes reply: "SelfSubjectAccessReviews_Create (Interface c)
                    (WithTimeout Background (10 * Second)) review CreateOptions_zero =
                  Inr response"
      and denied: "\<not> Allowed (Status response)"
  shows "(Reason (Status response) = '''' \<longrightarrow>
            returned (CanExec allocated c) = Some deniedCreateExecErr) \<and>
         (Reason (Status response) \<noteq> '''' \<longrightarrow>
            (\<exists>e. returned (CanExec allocated c) = Some e \<and>
                 Unwrap e = Some deniedCreateExecErr \<and>
                 address_of e = Allocated allocated)) \<and>
         (\<exists>e. returned (CanExec allocated c) = Some e \<and> errors_Is e deniedCreateExecErr) \<and>
         Error deniedCreateExecErr = ''no permissions to create exec subresource'' \<and>
         address_of deniedCreateExecErr = Package_var ''deniedCreateExecErr'' \<and>
         (\<forall>a. errors_Is (ErrorString a (Error deniedCreateExecErr)) deniedCreateExecErr =
               (a = Package_var ''deniedCreateExecErr''))"
  using reply denied unfolding CanExec_returned review_def
  by (simp add: deniedCreateExecErr_def)

theorem CanExec_denied_sentinel_witness:
  "\<not> Allowed denied_without_reason \<and> Reason denied_without_reason = '''' \<and>
   returned (CanExec 0 (example_client denied_without_reason)) = Some deniedCreateExecErr \<and>
   \<not> Allowed denied_with_reason \<and> Reason denied_with_reason \<noteq> '''' \<and>
   (\<exists>e. returned (CanExec 0 (example_client denied_with_reason)) = Some e \<and>
        Unwrap e = Some deniedCreateExecErr \<and> errors_Is e deniedCreateExecErr) \<and>
   \<not> errors_Is (ErrorString (Library_value ''rbac'') ''no permissions to create exec subresource'')
        deniedCreateExecErr"
proof -
  let ?review = "\<lparr>Spec = \<lparr>ResourceAttributes = Some
              \<lparr>Namespace_attr = Namespace (ClientOpt (example_client denied_without_reason)),
               Verb = ''create'', Group = '''',
               Resource = ''pods'', Subresource = ''exec'', Name = ''''\<rparr>\<rparr>,
        Status = Status_zero\<rparr>"
  let ?review' = "\<lparr>Spec = \<lparr>ResourceAttributes = Some
              \<lparr>Namespace_attr = Namespace (ClientOpt (example_client denied_with_reason)),
               Verb = ''create'', Group = '''',
               Resource = ''pods'', Subresource = ''exec'', Name = ''''\<rparr>\<rparr>,
        Status = Status_zero\<rparr>"
  have silent: "SelfSubjectAccessReviews_Create (Interface (example_client denied_without_reason))
      (WithTimeout Background (10 * Second)) ?review CreateOptions_zero =
      Inr (?review\<lparr>Status := denied_without_reason\<rparr>)"
    by (rule example_client_Create)
  have spoken: "SelfSubjectAccessReviews_Create (Interface (example_client denied_with_reason))
      (WithTimeout Background (10 * Second)) ?review' CreateOptions_zero =
      Inr (?review'\<lparr>Status := denied_with_reason\<rparr>)"
    by (rule example_client_Create)
  have no: "\<not> Allowed (Status (?review\<lparr>Status := denied_without_reason\<rparr>))"
           "\<not> Allowed (Status (?review'\<lparr>Status := denied_with_reason\<rparr>))"
    by (simp_all add: denied_without_reason_def denied_with_reason_def)
  have message: "Error deniedCreateExecErr = ''no permissions to create exec subresource''"
    by (simp add: deniedCreateExecErr_def)
  from CanExec_denied_sentinel [OF silent no(1), of 0]
       CanExec_denied_sentinel [OF spoken no(2), of 0]
  show ?thesis
    unfolding message
    by (auto simp add: denied_without_reason_def denied_with_reason_def)
qed

section \<open>The transport\<close>

text \<open>
  Claim C10. For every configuration for which the library gives a TLS configuration (nil
  or not), RoundTripperFor builds one upgrading round tripper. Its proxier is
  \<open>config.Proxy\<close> when that is not nil and \<open>http.ProxyFromEnvironment\<close> otherwise, it
  follows redirects, does not require same-host redirects and has ping period zero. That
  round tripper is the one handed to \<open>HTTPWrappersForConfig\<close> and the one returned when
  that call succeeds. When the library gives no TLS configuration but an error, nothing is
  built and the error is returned.
\<close>

theorem RoundTripperFor_transport:
  fixes lib config
  defines "proxier \<equiv> (if Proxy config \<noteq> None then Proxy config else Some ProxyFromEnvironment)"
  shows "(\<forall>tls. TLSConfigFor lib config = Inr tls \<longrightarrow>
            (\<exists>cfg. TLS cfg = tls \<and>
                   Proxier cfg = proxier \<and>
                   FollowRedirects cfg \<and>
                   \<not> RequireSameHostRedirects cfg \<and>
                   PingPeriod cfg = 0 \<and>
                   fst (RoundTripperFor lib config) =
                     [Call_TLSConfigFor config (Inr tls),
                      Call_NewRoundTripperWithConfig cfg,
                      Call_HTTPWrappersForConfig config (NewRoundTripperWithConfig cfg)
                        (HTTPWrappersForConfig lib config (NewRoundTripperWithConfig cfg))] \<and>
                   snd (RoundTripperFor lib config) =
                     (case HTTPWrappersForConfig lib config (NewRoundTripperWithConfig cfg) of
                        Inl err \<Rightarrow> Inl err
                      | Inr wrapper \<Rightarrow> Inr (wrapper, NewRoundTripperWithConfig cfg)))) \<and>
         (\<forall>err. TLSConfigFor lib config = Inl err \<longrightarrow>
            RoundTripperFor lib config = ([Call_TLSConfigFor config (Inl err)], Inl err))"
proof (intro conjI allI impI)
  fix tls
  assume tls: "TLSConfigFor lib config = Inr tls"
  let ?cfg = "\<lparr>TLS = tls, FollowRedirects = True, RequireSameHostRedirects = False,
               Proxier = proxier, PingPeriod = 0\<rparr>"
  have "fst (RoundTripperFor lib config) =
          [Call_TLSConfigFor config (Inr tls),
           Call_NewRoundTripperWithConfig ?cfg,
           Call_HTTPWrappersForConfig config (NewRoundTripperWithConfig ?cfg)
             (HTTPWrappersForConfig lib config (NewRoundTripperWithConfig ?cfg))]"
    using tls unfolding proxier_def
    by (simp add: RoundTripperFor_def Let_def split: sum.split)
  moreover have "snd (RoundTripperFor lib config) =
          (case HTTPWrappersForConfig lib config (NewRoundTripperWithConfig ?cfg) of
             Inl err \<Rightarrow> Inl err
           | Inr wrapper \<Rightarrow> Inr (wrapper, NewRoundTripperWithConfig ?cfg))"
    using tls unfolding proxier_def
    by (simp add: RoundTripperFor_def Let_def split: sum.split)
  ultimately show "\<exists>cfg. TLS cfg = tls \<and>
                   Proxier cfg = proxier \<and>
                   FollowRedirects cfg \<and>
                   \<not> RequireSameHostRedirects cfg \<and>
                   PingPeriod cfg = 0 \<and>
                   fst (RoundTripperFor lib config) =
                     [Call_TLSConfigFor config (Inr tls),
                      Call_NewRoundTripperWithConfig cfg,
                      Call_HTTPWrappersForConfig config (NewRoundTripperWithConfig cfg)
                        (HTTPWrappersForConfig lib config (NewRoundTripperWithConfig cfg))] \<and>
                   snd (RoundTripperFor lib config) =
                     (case HTTPWrappersForConfig lib config (NewRoundTripperWithConfig cfg) of
                        Inl err \<Rightarrow> Inl err
                      | Inr wrapper \<Rightarrow> Inr (wrapper, NewRoundTripperWithConfig cfg))"
    by (intro exI [of _ ?cfg]) simp
next
  fix err
  assume "TLSConfigFor lib config = Inl err"
  then show "RoundTripperFor lib config = ([Call_TLSConfigFor config (Inl err)], Inl err)"
    by (simp add: RoundTripperFor_def Let_def)
qed

theorem RoundTripperFor_transport_witness:
  "snd (RoundTripperFor example_library example_proxy_config) =
     Inr (RoundTripper ''https://10.0.0.1:6443'',
          NewRoundTripperWithConfig
            \<lparr>TLS = Some (TLSConfig ''https://10.0.0.1:6443''), FollowRedirects = True,
             RequireSameHostRedirects = False, Proxier = Some (ProxyFunc ''corporate''),
             PingPeriod = 0\<rparr>) \<and>
   snd (RoundTripperFor plain_http_library example_config) =
     Inr (RoundTripper ''https://10.0.0.1:6443'',
          NewRoundTripperWithConfig
            \<lparr>TLS = None, FollowRedirects = True,
             RequireSameHostRedirects = False, Proxier = Some ProxyFromEnvironment,
             PingPeriod = 0\<rparr>) \<and>
   RoundTripperFor broken_tls_library example_config =
     ([Call_TLSConfigFor example_config
         (Inl (ErrorString (Library_value ''certs'') ''unable to load root certificates''))],
      Inl (ErrorString (Library_value ''certs'') ''unable to load root certificates''))"
proof -
  have tls:
    "TLSConfigFor example_library example_proxy_config =
       Inr (Some (TLSConfig ''https://10.0.0.1:6443''))"
    "TLSConfigFor plain_http_library example_config = Inr None"
    "TLSConfigFor broken_tls_library example_config =
       Inl (ErrorString (Library_value ''certs'') ''unable to load root certificates'')"
    by (simp_all add: example_library_def plain_http_library_def broken_tls_library_def
        example_proxy_config_def)
  have wrapped:
    "HTTPWrappersForConfig example_library example_proxy_config rt =
       Inr (RoundTripper ''https://10.0.0.1:6443'')"
    "HTTPWrappersForConfig plain_http_library example_config rt =
       Inr (RoundTripper ''https://10.0.0.1:6443'')" for rt
    by (simp_all add: example_library_def plain_http_library_def example_proxy_config_def
        example_config_def)
  have proxies: "Proxy example_proxy_config = Some (ProxyFunc ''corporate'')"
                "Proxy example_config = None"
    by (simp_all add: example_proxy_config_def example_config_def)
  from RoundTripperFor_transport [of example_library example_proxy_config] tls(1)
  obtain cfg where cfg: "TLS cfg = Some (TLSConfig ''https://10.0.0.1:6443'')"
      "Proxier cfg = Some (ProxyFunc ''corporate'')" "FollowRedirects cfg"
      "\<not> RequireSameHostRedirects cfg" "PingPeriod cfg = 0"
      "snd (RoundTripperFor example_library example_proxy_config) =
         Inr (RoundTripper ''https://10.0.0.1:6443'', NewRoundTripperWithConfig cfg)"
    unfolding wrapped proxies by auto
  from RoundTripperFor_transport [of plain_http_library example_config] tls(2)
  obtain cfg' where cfg': "TLS cfg' = None"
      "Proxier cfg' = Some ProxyFromEnvironment" "FollowRedirects cfg'"
      "\<not> RequireSameHostRedirects cfg'" "PingPeriod cfg' = 0"
      "snd (RoundTripperFor plain_http_library example_config) =
         Inr (RoundTripper ''https://10.0.0.1:6443'', NewRoundTripperWithConfig cfg')"
    unfolding wrapped proxies by auto
  from RoundTripperFor_transport [of broken_tls_library example_config] tls(3)
  have failed: "RoundTripperFor broken_tls_library example_config =
     ([Call_TLSConfigFor example_config
         (Inl (ErrorString (Library_value ''certs'') ''unable to load root certificates''))],
      Inl (ErrorString (Library_value ''certs'') ''unable to load root certificates''))"
    by simp
  from cfg have "cfg = \<lparr>TLS = Some (TLSConfig ''https://10.0.0.1:6443''), FollowRedirects = True,
             RequireSameHostRedirects = False, Proxier = Some (ProxyFunc ''corporate''),
             PingPeriod = 0\<rparr>"
    by (cases cfg) simp
  moreover from cfg' have "cfg' = \<lparr>TLS = None, FollowRedirects = True,
             RequireSameHostRedirects = False, Proxier = Some ProxyFromEnvironment,
             PingPeriod = 0\<rparr>"
    by (cases cfg') simp
  ultimately show ?thesis using cfg(6) cfg'(6) failed by simp
qed


end
